theory Spec2Isabelle
  imports Main "HOL-Library.Sublist"
begin

section \<open>Text primitives of the Python runtime\<close>

text \<open>
  Text is modelled over the ASCII repertoire: a \<open>string\<close> is the list of the characters
  of a Python \<open>str\<close>. Characters outside ASCII are neither whitespace nor letters here;
  Python's Unicode case mapping and Unicode whitespace are outside the model.
\<close>

definition py_isspace :: "char \<Rightarrow> bool" where
  \<comment> \<open>\<open>str.isspace\<close> on one ASCII character: TAB, LF, VT, FF, CR, FS, GS, RS, US, SPACE.\<close>
  "py_isspace c = (c \<in> set [CHR 0x09, CHR 0x0A, CHR 0x0B, CHR 0x0C, CHR 0x0D,
                              CHR 0x1C, CHR 0x1D, CHR 0x1E, CHR 0x1F, CHR 0x20])"

definition py_strip :: "string \<Rightarrow> string" where
  \<comment> \<open>\<open>s.strip()\<close>\<close>
  "py_strip s = rev (dropWhile py_isspace (rev (dropWhile py_isspace s)))"

definition py_lower_char :: "char \<Rightarrow> char" where
  "py_lower_char c =
     (case map_of (zip ''ABCDEFGHIJKLMNOPQRSTUVWXYZ'' ''abcdefghijklmnopqrstuvwxyz'') c of
        Some d \<Rightarrow> d | None \<Rightarrow> c)"

definition py_upper_char :: "char \<Rightarrow> char" where
  "py_upper_char c =
     (case map_of (zip ''abcdefghijklmnopqrstuvwxyz'' ''ABCDEFGHIJKLMNOPQRSTUVWXYZ'') c of
        Some d \<Rightarrow> d | None \<Rightarrow> c)"

definition py_lower :: "string \<Rightarrow> string" where
  \<comment> \<open>\<open>s.lower()\<close>\<close>
  "py_lower s = map py_lower_char s"

definition py_upper :: "string \<Rightarrow> string" where
  \<comment> \<open>\<open>s.upper()\<close>\<close>
  "py_upper s = map py_upper_char s"

fun py_in :: "string \<Rightarrow> string \<Rightarrow> bool" where
  \<comment> \<open>\<open>sub in s\<close> on strings: \<open>sub\<close> occurs at some position of \<open>s\<close>.\<close>
  "py_in sub [] = (sub = [])"
| "py_in sub (c # cs) = (prefix sub (c # cs) \<or> py_in sub cs)"

definition is_digit :: "char \<Rightarrow> bool" where
  \<comment> \<open>the character class \<open>[0-9]\<close>\<close>
  "is_digit c = (c \<in> set ''0123456789'')"

definition digit_val :: "char \<Rightarrow> int" where
  "digit_val c =
     (case map_of (zip ''0123456789'' [0, 1, 2, 3, 4, 5, 6, 7, 8, 9]) c of
        Some d \<Rightarrow> d | None \<Rightarrow> 0)"

definition py_int :: "string \<Rightarrow> int" where
  \<comment> \<open>\<open>int(s)\<close> on a non-empty string of ASCII digits (the only strings the program
      passes to it); the interpreter's optional limit on the number of digits is not
      modelled.\<close>
  "py_int s = foldl (\<lambda>n c. 10 * n + digit_val c) 0 s"

section \<open>The entity store\<close>

text \<open>
  The four collections hold the records the program itself writes, so every record
  carries each of its fields, and \<open>item.get("id", 0)\<close> reads the field \<open>id\<close>.

  The lookup dictionaries of \<open>JsonStore\<close> hold the very objects that the lists hold.
  The lists only grow at the end, so the position of a record in its list identifies
  the object: a dictionary maps a key to the position of the record it refers to.
\<close>

record subasta =
  sub_id :: int
  sub_nombre :: string

record familia =
  fam_id :: int
  fam_nombre :: string

record producto =
  prod_id :: int
  prod_familia_id :: int
  prod_nombre :: string
  prod_url :: "string option"

record precio_rec =
  pr_subasta_id :: int
  pr_fecha :: string
  pr_producto_id :: int
  pr_corte :: int
  pr_precio :: int

type_synonym precio_key = "int \<times> string \<times> int \<times> int"

record store =
  subastas :: "subasta list"
  familias :: "familia list"
  productos :: "producto list"
  precios :: "precio_rec list"
  subastas_by_id :: "int \<rightharpoonup> nat"
  familias_by_name :: "string \<rightharpoonup> nat"
  productos_by_key :: "(int \<times> string) \<rightharpoonup> nat"
  precios_keys :: "precio_key set"

definition precio_key_of :: "precio_rec \<Rightarrow> precio_key" where
  "precio_key_of item = (pr_subasta_id item, pr_fecha item, pr_producto_id item, pr_corte item)"

fun index_by :: "('a \<Rightarrow> 'k) \<Rightarrow> nat \<Rightarrow> 'a list \<Rightarrow> ('k \<rightharpoonup> nat) \<Rightarrow> ('k \<rightharpoonup> nat)" where
  \<comment> \<open>the dict comprehension \<open>{key(item): item for item in items}\<close>: a later item with
      the same key replaces an earlier one\<close>
  "index_by key i [] m = m"
| "index_by key i (item # items) m = index_by key (Suc i) items (m(key item \<mapsto> i))"

definition JsonStore_init ::
  "subasta list \<Rightarrow> familia list \<Rightarrow> producto list \<Rightarrow> precio_rec list \<Rightarrow> store" where
  \<comment> \<open>\<open>JsonStore.__init__\<close>, from the four loaded lists\<close>
  "JsonStore_init subs fams prods precs =
     \<lparr> subastas = subs, familias = fams, productos = prods, precios = precs,
       subastas_by_id = index_by sub_id 0 subs Map.empty,
       familias_by_name = index_by (\<lambda>item. py_lower (py_strip (fam_nombre item))) 0 fams Map.empty,
       productos_by_key =
         index_by (\<lambda>item. (prod_familia_id item, py_lower (py_strip (prod_nombre item)))) 0 prods Map.empty,
       precios_keys = set (map precio_key_of precs) \<rparr>"

fun py_max_default :: "int list \<Rightarrow> int \<Rightarrow> int" where
  \<comment> \<open>\<open>max(xs, default=d)\<close>\<close>
  "py_max_default [] d = d"
| "py_max_default (x # xs) d = foldl max x xs"

definition next_id :: "int list \<Rightarrow> int" where
  \<comment> \<open>\<open>JsonStore._next_id\<close>, on the list of the ids of the items\<close>
  "next_id ids = (if ids \<noteq> [] then py_max_default ids 0 + 1 else 1)"

definition upsert_subasta :: "store \<Rightarrow> int \<Rightarrow> string \<Rightarrow> store" where
  "upsert_subasta s subasta_id nombre =
     (case subastas_by_id s subasta_id of
        None \<Rightarrow>
          s\<lparr> subastas := subastas s @ [\<lparr> sub_id = subasta_id, sub_nombre = py_strip nombre \<rparr>],
             subastas_by_id := (subastas_by_id s)(subasta_id \<mapsto> length (subastas s)) \<rparr>
      | Some i \<Rightarrow>
          if py_strip nombre \<noteq> [] \<and> sub_nombre (subastas s ! i) \<noteq> py_strip nombre
          then s\<lparr> subastas := (subastas s)[i := (subastas s ! i)\<lparr> sub_nombre := py_strip nombre \<rparr>] \<rparr>
          else s)"

definition get_or_create_familia :: "store \<Rightarrow> string \<Rightarrow> int \<times> store" where
  "get_or_create_familia s family_name =
     (let key = py_lower (py_strip family_name) in
      case familias_by_name s key of
        Some i \<Rightarrow> (fam_id (familias s ! i), s)
      | None \<Rightarrow>
          (let family_id = next_id (map fam_id (familias s)) in
           (family_id,
            s\<lparr> familias := familias s @ [\<lparr> fam_id = family_id, fam_nombre = py_strip family_name \<rparr>],
               familias_by_name := (familias_by_name s)(key \<mapsto> length (familias s)) \<rparr>)))"

definition truthy_url :: "string option \<Rightarrow> bool" where
  \<comment> \<open>the truth value of a \<open>str | None\<close>: neither \<open>None\<close> nor the empty string\<close>
  "truthy_url u = (case u of None \<Rightarrow> False | Some t \<Rightarrow> t \<noteq> [])"

definition get_or_create_producto :: "store \<Rightarrow> int \<Rightarrow> string \<Rightarrow> string option \<Rightarrow> int \<times> store" where
  "get_or_create_producto s family_id product_name product_url =
     (let key = (family_id, py_lower (py_strip product_name)) in
      case productos_by_key s key of
        Some i \<Rightarrow>
          (let existing = productos s ! i in
           if truthy_url product_url \<and> \<not> truthy_url (prod_url existing)
           then (prod_id existing,
                 s\<lparr> productos := (productos s)[i := existing\<lparr> prod_url := product_url \<rparr>] \<rparr>)
           else (prod_id existing, s))
      | None \<Rightarrow>
          (let product_id = next_id (map prod_id (productos s)) in
           (product_id,
            s\<lparr> productos := productos s @
                  [\<lparr> prod_id = product_id, prod_familia_id = family_id,
                     prod_nombre = py_strip product_name, prod_url = product_url \<rparr>],
               productos_by_key := (productos_by_key s)(key \<mapsto> length (productos s)) \<rparr>)))"

definition insert_precio :: "store \<Rightarrow> int \<Rightarrow> string \<Rightarrow> int \<Rightarrow> int \<Rightarrow> int \<Rightarrow> bool \<times> store" where
  "insert_precio s subasta_id fecha_iso producto_id corte precio =
     (let key = (subasta_id, fecha_iso, producto_id, corte) in
      if key \<in> precios_keys s then (False, s)
      else (True,
            s\<lparr> precios := precios s @
                  [\<lparr> pr_subasta_id = subasta_id, pr_fecha = fecha_iso,
                     pr_producto_id = producto_id, pr_corte = corte, pr_precio = precio \<rparr>],
               precios_keys := insert key (precios_keys s) \<rparr>))"

definition refs_ok :: "store \<Rightarrow> bool" where
  \<comment> \<open>every dictionary entry refers to a record of its list\<close>
  "refs_ok s =
     ((\<forall>k i. subastas_by_id s k = Some i \<longrightarrow> i < length (subastas s)) \<and>
      (\<forall>k i. familias_by_name s k = Some i \<longrightarrow> i < length (familias s)) \<and>
      (\<forall>k i. productos_by_key s k = Some i \<longrightarrow> i < length (productos s)))"

definition keys_inv :: "store \<Rightarrow> bool" where
  \<comment> \<open>the price key index is the set of the natural keys of the price records\<close>
  "keys_inv s = (precios_keys s = set (map precio_key_of (precios s)))"

definition empty_store :: store where
  \<comment> \<open>the store of a first run: no file exists yet, every collection loads as \<open>[]\<close>\<close>
  "empty_store = JsonStore_init [] [] [] []"

definition one_price_store :: store where
  "one_price_store =
     JsonStore_init [] [] []
       [\<lparr> pr_subasta_id = 3, pr_fecha = ''2024-03-05'', pr_producto_id = 1, pr_corte = 1,
          pr_precio = 1500 \<rparr>]"

definition novillo_store :: store where
  \<comment> \<open>one product, loaded without a URL\<close>
  "novillo_store =
     JsonStore_init [] [\<lparr> fam_id = 1, fam_nombre = ''Vacuno'' \<rparr>]
       [\<lparr> prod_id = 1, prod_familia_id = 1, prod_nombre = ''Novillo'', prod_url = None \<rparr>] []"

section \<open>The response classifier\<close>

definition has_error_response :: "string \<Rightarrow> bool" where
  "has_error_response html = (py_in ''ERROR'' (py_upper html) \<and> \<not> py_in ''tab_pre_pro'' html)"

section \<open>Parsed documents\<close>

text \<open>
  A parsed document is the tree the HTML parser hands to the program. Of an element the
  program reads its tag name, its list of classes (\<open>row.get("class", [])\<close>: empty when
  the attribute is absent), its \<open>onclick\<close> attribute and its children; a text node
  carries its string. The document itself is the root element.
\<close>

datatype node =
  Text string
| Elem (tag: string) (classes: "string list") (onclick: "string option") (children: "node list")

fun descendants :: "node \<Rightarrow> node list" where
  \<comment> \<open>all nodes below a node, in document order\<close>
  "descendants (Text t) = []"
| "descendants (Elem tg cls oc ch) = concat (map (\<lambda>c. c # descendants c) ch)"

fun is_elem :: "node \<Rightarrow> bool" where
  "is_elem (Text t) = False"
| "is_elem (Elem tg cls oc ch) = True"

fun py_join :: "string \<Rightarrow> string list \<Rightarrow> string" where
  \<comment> \<open>\<open>sep.join(xs)\<close>\<close>
  "py_join sep [] = []"
| "py_join sep [x] = x"
| "py_join sep (x # y # ys) = x @ sep @ py_join sep (y # ys)"

fun strings :: "node list \<Rightarrow> string list" where
  \<comment> \<open>the strings of the text nodes of a list of nodes\<close>
  "strings [] = []"
| "strings (Text t # ns) = t # strings ns"
| "strings (Elem tg cls oc ch # ns) = strings ns"

definition get_text :: "string \<Rightarrow> node \<Rightarrow> string" where
  \<comment> \<open>\<open>el.get_text(sep, strip=True)\<close>: the strings below the element, each stripped,
      the empty ones dropped, joined by the separator\<close>
  "get_text sep el = py_join sep (filter (\<lambda>t. t \<noteq> []) (map py_strip (strings (descendants el))))"

definition tag_class :: "string \<Rightarrow> string \<Rightarrow> node \<Rightarrow> bool" where
  \<comment> \<open>the selector \<open>tag.class\<close> on one node\<close>
  "tag_class tg c n = (is_elem n \<and> tag n = tg \<and> c \<in> set (classes n))"

definition td_class_prefix :: "string \<Rightarrow> node \<Rightarrow> bool" where
  \<comment> \<open>the selector \<open>td[class^='p']\<close>: the value of the class attribute, its classes
      joined by spaces, starts with \<open>p\<close>\<close>
  "td_class_prefix p n =
     (is_elem n \<and> tag n = ''td'' \<and> classes n \<noteq> [] \<and> prefix p (py_join '' '' (classes n)))"

definition select :: "(node \<Rightarrow> bool) \<Rightarrow> node \<Rightarrow> node list" where
  \<comment> \<open>\<open>el.select(sel)\<close> for a simple selector: the matching nodes below \<open>el\<close>, in
      document order\<close>
  "select sel el = filter sel (descendants el)"

definition select_one :: "(node \<Rightarrow> bool) \<Rightarrow> node \<Rightarrow> node option" where
  \<comment> \<open>\<open>el.select_one(sel)\<close>: the first match, or \<open>None\<close>\<close>
  "select_one sel el = (case select sel el of [] \<Rightarrow> None | n # ns \<Rightarrow> Some n)"

fun select_under :: "(node \<Rightarrow> bool) \<Rightarrow> (node \<Rightarrow> bool) \<Rightarrow> bool \<Rightarrow> node \<Rightarrow> node list" where
  \<comment> \<open>the descendant combinator \<open>anc tgt\<close>: the nodes below a node that match \<open>tgt\<close>
      and lie below a node matching \<open>anc\<close>, in document order; \<open>inside\<close> tells whether
      the node itself lies below such an ancestor\<close>
  "select_under anc tgt inside (Text t) = []"
| "select_under anc tgt inside (Elem tg cls oc ch) =
     concat (map (\<lambda>c.
        (if (inside \<or> anc (Elem tg cls oc ch)) \<and> tgt c then [c] else []) @
        select_under anc tgt (inside \<or> anc (Elem tg cls oc ch)) c) ch)"

definition select_one_under :: "(node \<Rightarrow> bool) \<Rightarrow> (node \<Rightarrow> bool) \<Rightarrow> node \<Rightarrow> node option" where
  \<comment> \<open>\<open>soup.select_one("anc tgt")\<close>: the first match below the document, the search
      starting outside any ancestor\<close>
  "select_one_under anc tgt soup =
     (case select_under anc tgt False soup of [] \<Rightarrow> None | n # ns \<Rightarrow> Some n)"

section \<open>The row extractor\<close>

record ParsedRow =
  family_name :: string
  product_name :: string
  product_url :: "string option"
  cuts :: "int option list"

fun strip_prefix :: "string \<Rightarrow> string \<Rightarrow> string option" where
  \<comment> \<open>the rest of the text after a literal, when the text starts with it\<close>
  "strip_prefix [] s = Some s"
| "strip_prefix (p # ps) [] = None"
| "strip_prefix (p # ps) (c # cs) = (if p = c then strip_prefix ps cs else None)"

definition match_location_at :: "string \<Rightarrow> string option" where
  \<comment> \<open>the pattern \<open>window\.location\s*=\s*'([^']+)'\<close> matched at the start of the
      text: its group 1\<close>
  "match_location_at s =
     (case strip_prefix ''window.location'' s of
        None \<Rightarrow> None
      | Some r1 \<Rightarrow>
          (case dropWhile py_isspace r1 of
             [] \<Rightarrow> None
           | e # r2 \<Rightarrow>
               if e \<noteq> CHR ''='' then None
               else (case dropWhile py_isspace r2 of
                       [] \<Rightarrow> None
                     | q # r3 \<Rightarrow>
                         if q \<noteq> CHR 0x27 then None
                         else (let g = takeWhile (\<lambda>c. c \<noteq> CHR 0x27) r3;
                                   rest = dropWhile (\<lambda>c. c \<noteq> CHR 0x27) r3
                               in if g \<noteq> [] \<and> rest \<noteq> [] then Some g else None))))"

fun search_location :: "string \<Rightarrow> string option" where
  \<comment> \<open>\<open>re.search\<close> of that pattern: the leftmost match\<close>
  "search_location [] = match_location_at []"
| "search_location (c # cs) =
     (case match_location_at (c # cs) of Some g \<Rightarrow> Some g | None \<Rightarrow> search_location cs)"

definition parse_product_url :: "node \<Rightarrow> string option" where
  "parse_product_url row =
     (case onclick row of
        None \<Rightarrow> None
      | Some oc \<Rightarrow> if oc = [] then None else search_location oc)"

fun parse_cuts_loop :: "node list \<Rightarrow> int option list \<Rightarrow> int option list" where
  \<comment> \<open>the loop of \<open>parse_cuts\<close> over the cells, with the list \<open>values\<close> built so far\<close>
  "parse_cuts_loop [] values = values"
| "parse_cuts_loop (cell # cells) values =
     (let text = get_text [] cell in
      if text = ''-'' \<or> text = [] then parse_cuts_loop cells (values @ [None])
      else (let cleaned = filter is_digit text in
            parse_cuts_loop cells (values @ [if cleaned \<noteq> [] then Some (py_int cleaned) else None])))"

definition parse_cuts :: "node \<Rightarrow> int option list" where
  "parse_cuts row = parse_cuts_loop (select (tag_class ''td'' ''txt'') row) []"

definition parse_row_step :: "node \<Rightarrow> string \<times> ParsedRow list \<Rightarrow> string \<times> ParsedRow list" where
  \<comment> \<open>one pass of the loop of \<open>parse_rows\<close>, on the pair (\<open>current_family\<close>, \<open>rows\<close>)\<close>
  "parse_row_step row st =
     (let current_family = fst st; rows = snd st in
      if ''familias_subasta'' \<in> set (classes row) then
        (case select_one (td_class_prefix ''fam'') row of
           Some fam_cell \<Rightarrow> (get_text '' '' fam_cell, rows)
         | None \<Rightarrow> (current_family, rows))
      else
        (case select_one (tag_class ''td'' ''pro'') row of
           None \<Rightarrow> (current_family, rows)
         | Some product_cell \<Rightarrow>
             if current_family = [] then (current_family, rows)
             else (current_family,
                   rows @ [\<lparr> family_name = current_family,
                             product_name = get_text '' '' product_cell,
                             product_url = parse_product_url row,
                             cuts = parse_cuts row \<rparr>])))"

fun parse_rows_loop :: "node list \<Rightarrow> string \<times> ParsedRow list \<Rightarrow> string \<times> ParsedRow list" where
  "parse_rows_loop [] st = st"
| "parse_rows_loop (row # trs) st = parse_rows_loop trs (parse_row_step row st)"

definition is_tr :: "node \<Rightarrow> bool" where
  "is_tr n = (is_elem n \<and> tag n = ''tr'')"

definition parse_rows :: "node \<Rightarrow> ParsedRow list" where
  "parse_rows soup =
     (case select_one (tag_class ''table'' ''tab_pre_pro'') soup of
        None \<Rightarrow> []
      | Some table \<Rightarrow> snd (parse_rows_loop (select is_tr table) ([], [])))"

definition spec_cut :: "string \<Rightarrow> int option" where
  \<comment> \<open>The entry of one price cell in the words of the specification, on the text of the
      cell: a lone dash or a blank, or nothing left after removing the non-digits, is a
      null entry; otherwise the digits that are left, read as an integer.\<close>
  "spec_cut text =
     (if text = ''-'' \<or> text = [] \<or> filter is_digit text = [] then None
      else Some (py_int (filter is_digit text)))"

definition price_cell :: "string \<Rightarrow> node" where
  "price_cell t = Elem ''td'' [''txt''] None [Text t]"

definition example_cut_row :: node where
  "example_cut_row =
     Elem ''tr'' [] None [price_cell ''1200'', price_cell ''-'', price_cell [], price_cell ''980'']"

definition header_no_fam_cell :: node where
  \<comment> \<open>a family-header row whose only cell is not a family cell\<close>
  "header_no_fam_cell = Elem ''tr'' [''familias_subasta''] None [Elem ''td'' [''sep''] None [Text ''Ovino'']]"

definition ternera_cell :: node where
  "ternera_cell = Elem ''td'' [''pro''] None [Text ''Ternera'']"

definition ternera_row :: node where
  "ternera_row = Elem ''tr'' [] None [ternera_cell, price_cell ''12'']"

section \<open>The document metadata extractor\<close>

datatype py_error = ValueError | OverflowError

record date =
  year :: int
  month :: int
  day :: int

definition is_leap :: "int \<Rightarrow> bool" where
  "is_leap y = (y mod 4 = 0 \<and> (y mod 100 \<noteq> 0 \<or> y mod 400 = 0))"

definition days_in_month :: "int \<Rightarrow> int \<Rightarrow> int" where
  "days_in_month y m =
     (if m = 2 then (if is_leap y then 29 else 28)
      else if m = 4 \<or> m = 6 \<or> m = 9 \<or> m = 11 then 30 else 31)"

definition py_date :: "int \<Rightarrow> int \<Rightarrow> int \<Rightarrow> py_error + date" where
  \<comment> \<open>the constructor \<open>date(year, month, day)\<close> of the standard library: it raises
      \<open>ValueError\<close> unless the year is in 1..9999, the month in 1..12 and the day in
      1..the number of days of that month\<close>
  "py_date y m d =
     (if 1 \<le> y \<and> y \<le> 9999 \<and> 1 \<le> m \<and> m \<le> 12 \<and> 1 \<le> d \<and> d \<le> days_in_month y m
      then Inr \<lparr> year = y, month = m, day = d \<rparr>
      else Inl ValueError)"

definition match_date_at :: "string \<Rightarrow> (string \<times> string \<times> string) option" where
  \<comment> \<open>the pattern \<open>(\d{2})-(\d{2})-(\d{4})\<close> matched at the start of the text: its
      three groups\<close>
  "match_date_at s =
     (let dd = take 2 s; mm = take 2 (drop 3 s); yyyy = take 4 (drop 6 s) in
      if 10 \<le> length s \<and> list_all is_digit dd \<and> s ! 2 = CHR ''-'' \<and>
         list_all is_digit mm \<and> s ! 5 = CHR ''-'' \<and> list_all is_digit yyyy
      then Some (dd, mm, yyyy) else None)"

fun search_date :: "string \<Rightarrow> (string \<times> string \<times> string) option" where
  \<comment> \<open>\<open>re.search\<close> of that pattern: the leftmost match\<close>
  "search_date [] = None"
| "search_date (c # cs) =
     (case match_date_at (c # cs) of Some g \<Rightarrow> Some g | None \<Rightarrow> search_date cs)"

definition extract_table_date :: "node \<Rightarrow> date \<Rightarrow> py_error + date" where
  "extract_table_date soup fallback =
     (case select_one_under (tag_class ''table'' ''tab_pre_sub'') (tag_class ''td'' ''titNombreder'') soup of
        None \<Rightarrow> Inr fallback
      | Some title_cell \<Rightarrow>
          (case search_date (get_text '' '' title_cell) of
             None \<Rightarrow> Inr fallback
           | Some (dd, mm, yyyy) \<Rightarrow> py_date (py_int yyyy) (py_int mm) (py_int dd)))"

fun str_nat :: "nat \<Rightarrow> string" where
  "str_nat n =
     (if n < 10 then [''0123456789'' ! n] else str_nat (n div 10) @ [''0123456789'' ! (n mod 10)])"

definition py_str :: "int \<Rightarrow> string" where
  \<comment> \<open>\<open>str(i)\<close> of an integer, as the f-string formats it\<close>
  "py_str i = (if i < 0 then CHR ''-'' # str_nat (nat (- i)) else str_nat (nat i))"

definition extract_auction_name :: "node \<Rightarrow> int \<Rightarrow> string" where
  "extract_auction_name soup fallback_id =
     (case select_one_under (tag_class ''table'' ''tab_pre_sub'') (tag_class ''td'' ''titNombreizq'') soup of
        None \<Rightarrow> ''Subasta '' @ py_str fallback_id
      | Some title_cell \<Rightarrow>
          (let name = get_text '' '' title_cell in
           if name = [] then ''Subasta '' @ py_str fallback_id else name))"

section \<open>The crawl driver\<close>

text \<open>
  What the driver takes from outside the program is a parameter: the page the remote
  service answers for an auction and a day (\<open>None\<close> when the request raises
  \<open>requests.RequestException\<close>), the HTML parser, the subtraction of a number of days from
  a date (which raises \<open>OverflowError\<close> outside the range of dates) and the formatting of
  a date by \<open>strftime("%Y-%m-%d")\<close>. The pause between requests and the log lines are
  left out. A result \<open>Inl e\<close> is the exception \<open>e\<close> leaving \<open>run_scrapper\<close>, before
  \<open>store.save()\<close>; a result \<open>Inr st\<close> carries the store that \<open>store.save()\<close> writes.
\<close>

record world =
  fetch_auction_html :: "int \<Rightarrow> date \<Rightarrow> string option"
  parse_html :: "string \<Rightarrow> node"
  minus_days :: "date \<Rightarrow> int \<Rightarrow> py_error + date"
  date_to_iso :: "date \<Rightarrow> string"

record run_state =
  the_store :: store
  inserted_prices :: nat
  queried :: nat

fun insert_cuts :: "store \<Rightarrow> int \<Rightarrow> string \<Rightarrow> int \<Rightarrow> int \<Rightarrow> int option list \<Rightarrow> nat \<Rightarrow> store \<times> nat" where
  \<comment> \<open>the loop over \<open>enumerate(row.cuts, start=1)\<close>, from the index \<open>cut_index\<close> on\<close>
  "insert_cuts s subasta_id fecha_iso producto_id cut_index [] inserted = (s, inserted)"
| "insert_cuts s subasta_id fecha_iso producto_id cut_index (price # rest) inserted =
     (case price of
        None \<Rightarrow> insert_cuts s subasta_id fecha_iso producto_id (cut_index + 1) rest inserted
      | Some p \<Rightarrow>
          (case insert_precio s subasta_id fecha_iso producto_id cut_index p of
             (was_inserted, s') \<Rightarrow>
               insert_cuts s' subasta_id fecha_iso producto_id (cut_index + 1) rest
                 (if was_inserted then inserted + 1 else inserted)))"

fun store_rows :: "store \<Rightarrow> int \<Rightarrow> string \<Rightarrow> ParsedRow list \<Rightarrow> nat \<Rightarrow> store \<times> nat" where
  \<comment> \<open>the loop over \<open>parsed_rows\<close>\<close>
  "store_rows s subasta_id fecha_iso [] inserted = (s, inserted)"
| "store_rows s subasta_id fecha_iso (row # rows) inserted =
     (case get_or_create_familia s (family_name row) of
        (family_id, s1) \<Rightarrow>
          (case get_or_create_producto s1 family_id (product_name row) (product_url row) of
             (product_id, s2) \<Rightarrow>
               (case insert_cuts s2 subasta_id fecha_iso product_id 1 (cuts row) inserted of
                  (s3, inserted') \<Rightarrow> store_rows s3 subasta_id fecha_iso rows inserted')))"

definition process_pair :: "world \<Rightarrow> int \<Rightarrow> date \<Rightarrow> run_state \<Rightarrow> py_error + run_state" where
  \<comment> \<open>one pass of the inner loop of \<open>run_scrapper\<close>, for one auction id and one day\<close>
  "process_pair w subasta_id current_day st =
     (let st1 = st\<lparr> queried := queried st + 1 \<rparr> in
      case fetch_auction_html w subasta_id current_day of
        None \<Rightarrow> Inr st1
      | Some html \<Rightarrow>
          if has_error_response html then Inr st1
          else
            (let soup = parse_html w html;
                 auction_name = extract_auction_name soup subasta_id in
             case extract_table_date soup current_day of
               Inl e \<Rightarrow> Inl e
             | Inr displayed_date \<Rightarrow>
                 (let displayed_date_iso = date_to_iso w displayed_date;
                      parsed_rows = parse_rows soup in
                  if parsed_rows = [] then Inr st1
                  else
                    (case store_rows (upsert_subasta (the_store st1) subasta_id auction_name)
                            subasta_id displayed_date_iso parsed_rows (inserted_prices st1) of
                       (s', inserted') \<Rightarrow>
                         Inr (st1\<lparr> the_store := s', inserted_prices := inserted' \<rparr>)))))"

fun auctions_loop :: "world \<Rightarrow> date \<Rightarrow> int list \<Rightarrow> run_state \<Rightarrow> py_error + run_state" where
  \<comment> \<open>the inner loop, over the auction ids still to query\<close>
  "auctions_loop w current_day [] st = Inr st"
| "auctions_loop w current_day (subasta_id # ids) st =
     (case process_pair w subasta_id current_day st of
        Inl e \<Rightarrow> Inl e
      | Inr st' \<Rightarrow> auctions_loop w current_day ids st')"

fun days_loop :: "world \<Rightarrow> date \<Rightarrow> int \<Rightarrow> int list \<Rightarrow> run_state \<Rightarrow> py_error + run_state" where
  \<comment> \<open>the outer loop, over the day offsets still to query\<close>
  "days_loop w lastdate maxsubastas [] st = Inr st"
| "days_loop w lastdate maxsubastas (day_offset # offsets) st =
     (case minus_days w lastdate day_offset of
        Inl e \<Rightarrow> Inl e
      | Inr current_day \<Rightarrow>
          (case auctions_loop w current_day [1..maxsubastas] st of
             Inl e \<Rightarrow> Inl e
           | Inr st' \<Rightarrow> days_loop w lastdate maxsubastas offsets st'))"

definition run_scrapper :: "world \<Rightarrow> date \<Rightarrow> int \<Rightarrow> int \<Rightarrow> store \<Rightarrow> py_error + run_state" where
  "run_scrapper w lastdate maxdays maxsubastas s =
     days_loop w lastdate maxsubastas [0..maxdays - 1]
       \<lparr> the_store = s, inserted_prices = 0, queried = 0 \<rparr>"

definition title_doc :: "string \<Rightarrow> node list \<Rightarrow> node" where
  \<comment> \<open>a document with the auction's title table, showing the given date text, followed
      by the given nodes\<close>
  "title_doc date_text others =
     Elem ''[document]'' [] None
       (Elem ''table'' [''tab_pre_sub''] None
          [Elem ''tr'' [] None
             [Elem ''td'' [''titNombreizq''] None [Text ''Lonja''],
              Elem ''td'' [''titNombreder''] None [Text date_text]]] # others)"

definition products_table :: node where
  \<comment> \<open>one family header ("Vacuno") and one product row ("Novillo", cuts "1500" and "-")\<close>
  "products_table =
     Elem ''table'' [''tab_pre_pro''] None
       [Elem ''tr'' [''familias_subasta''] None [Elem ''td'' [''fam1''] None [Text ''Vacuno'']],
        Elem ''tr'' [] None
          [Elem ''td'' [''pro''] None [Text ''Novillo''], price_cell ''1500'', price_cell ''-'']]"

definition d2099 :: date where
  "d2099 = \<lparr> year = 2099, month = 1, day = 1 \<rparr>"

definition pad2 :: "int \<Rightarrow> string" where
  "pad2 n = (if n < 10 then CHR ''0'' # py_str n else py_str n)"

definition fixed_world :: "node \<Rightarrow> world" where
  \<comment> \<open>a remote service that answers every request with one page; the page text is
      irrelevant to the parser parameter, which returns the given document\<close>
  "fixed_world doc =
     \<lparr> fetch_auction_html = (\<lambda>i d. Some ''<html>''),
       parse_html = (\<lambda>h. doc),
       minus_days = (\<lambda>d n. if n = 0 then Inr d else Inl OverflowError),
       date_to_iso = (\<lambda>d. py_str (year d) @ ''-'' @ pad2 (month d) @ ''-'' @ pad2 (day d)) \<rparr>"

section \<open>Properties of the entity store\<close>

subsection \<open>References stay inside their lists\<close>

lemma index_by_bound:
  "(\<forall>k j. m k = Some j \<longrightarrow> j < i) \<Longrightarrow> index_by key i items m k = Some j \<Longrightarrow> j < i + length items"
proof (induction items arbitrary: i m)
  case Nil
  then show ?case by simp
next
  case (Cons a items)
  have "\<forall>k j. (m(key a \<mapsto> i)) k = Some j \<longrightarrow> j < Suc i"
    using Cons.prems(1) by (auto simp: less_Suc_eq)
  then have "j < Suc i + length items"
    using Cons.prems(2) by (intro Cons.IH) auto
  then show ?case by simp
qed

lemma index_by_bound0: "index_by key 0 items Map.empty k = Some j \<Longrightarrow> j < length items"
  using index_by_bound[of Map.empty 0 key items k j] by simp

lemma refs_ok_init: "refs_ok (JsonStore_init subs fams prods precs)"
  unfolding refs_ok_def JsonStore_init_def
  by (auto dest: index_by_bound0)

lemma refs_ok_upsert_subasta: "refs_ok s \<Longrightarrow> refs_ok (upsert_subasta s i n)"
  by (auto simp: refs_ok_def upsert_subasta_def less_Suc_eq split: option.splits)

lemma refs_ok_get_or_create_familia: "refs_ok s \<Longrightarrow> refs_ok (snd (get_or_create_familia s n))"
  by (auto simp: refs_ok_def get_or_create_familia_def Let_def less_Suc_eq split: option.splits)

lemma refs_ok_get_or_create_producto:
  "refs_ok s \<Longrightarrow> refs_ok (snd (get_or_create_producto s f n u))"
  by (auto simp: refs_ok_def get_or_create_producto_def Let_def less_Suc_eq split: option.splits)

lemma refs_ok_insert_precio: "refs_ok s \<Longrightarrow> refs_ok (snd (insert_precio s a f p c v))"
  by (auto simp: refs_ok_def insert_precio_def Let_def)

subsection \<open>Price insertion\<close>

text \<open>
  Claim C1. \<open>insert_precio\<close> on a natural key (auction id, ISO date, product id, cut index)
  that is already in the key index returns \<open>False\<close> and returns the store as it was, so
  no collection changes and the price list keeps its length. On a key that is not in the
  index it returns \<open>True\<close>, appends exactly one record carrying that key and the given
  price, adds the key to the index, and changes nothing else.
\<close>

theorem insert_precio_dedup:
  "((subasta_id, fecha_iso, producto_id, corte) \<in> precios_keys s \<longrightarrow>
      insert_precio s subasta_id fecha_iso producto_id corte precio = (False, s)) \<and>
   ((subasta_id, fecha_iso, producto_id, corte) \<notin> precios_keys s \<longrightarrow>
      (\<exists>r s'. insert_precio s subasta_id fecha_iso producto_id corte precio = (True, s') \<and>
         precios s' = precios s @ [r] \<and>
         precio_key_of r = (subasta_id, fecha_iso, producto_id, corte) \<and>
         pr_precio r = precio \<and>
         precios_keys s' = insert (subasta_id, fecha_iso, producto_id, corte) (precios_keys s) \<and>
         subastas s' = subastas s \<and> familias s' = familias s \<and> productos s' = productos s \<and>
         subastas_by_id s' = subastas_by_id s \<and> familias_by_name s' = familias_by_name s \<and>
         productos_by_key s' = productos_by_key s))"
  by (simp add: insert_precio_def Let_def precio_key_of_def)

theorem insert_precio_dedup_witness:
  "(3, ''2024-03-05'', 1, 1) \<in> precios_keys one_price_store \<and>
   insert_precio one_price_store 3 ''2024-03-05'' 1 1 1700 = (False, one_price_store) \<and>
   (3, ''2024-03-05'', 1, 2) \<notin> precios_keys one_price_store \<and>
   fst (insert_precio one_price_store 3 ''2024-03-05'' 1 2 1700) \<and>
   length (precios (snd (insert_precio one_price_store 3 ''2024-03-05'' 1 2 1700))) = 2"
  using insert_precio_dedup[of 3 "''2024-03-05''" 1 1 one_price_store 1700]
        insert_precio_dedup[of 3 "''2024-03-05''" 1 2 one_price_store 1700]
  by (auto simp: one_price_store_def JsonStore_init_def precio_key_of_def)

text \<open>
  Claim C10. The key index is the set of the natural keys of the price records: the
  constructor establishes this and every operation of the store keeps it. When the keys
  of the records are pairwise distinct (a loaded state without duplicates), the number of
  records is the number of keys, and an insertion keeps the keys distinct. A call of
  \<open>insert_precio\<close> that returns \<open>True\<close> makes the record list one longer and adds one
  new key to the index; a call that returns \<open>False\<close> changes neither.
\<close>

theorem precios_keys_invariant:
  "keys_inv (JsonStore_init subs fams prods precs) \<and>
   (keys_inv s \<longrightarrow>
      keys_inv (snd (insert_precio s a f p c v)) \<and>
      keys_inv (upsert_subasta s a n) \<and>
      keys_inv (snd (get_or_create_familia s n)) \<and>
      keys_inv (snd (get_or_create_producto s p n u))) \<and>
   (keys_inv s \<and> distinct (map precio_key_of (precios s)) \<longrightarrow>
      card (precios_keys s) = length (precios s) \<and>
      distinct (map precio_key_of (precios (snd (insert_precio s a f p c v))))) \<and>
   (fst (insert_precio s a f p c v) \<longrightarrow>
      length (precios (snd (insert_precio s a f p c v))) = Suc (length (precios s)) \<and>
      (a, f, p, c) \<notin> precios_keys s \<and>
      precios_keys (snd (insert_precio s a f p c v)) = insert (a, f, p, c) (precios_keys s) \<and>
      (finite (precios_keys s) \<longrightarrow>
         card (precios_keys (snd (insert_precio s a f p c v))) = Suc (card (precios_keys s)))) \<and>
   (\<not> fst (insert_precio s a f p c v) \<longrightarrow>
      precios (snd (insert_precio s a f p c v)) = precios s \<and>
      precios_keys (snd (insert_precio s a f p c v)) = precios_keys s)"
proof -
  have init: "keys_inv (JsonStore_init subs fams prods precs)"
    by (simp add: keys_inv_def JsonStore_init_def)
  have keep: "keys_inv s \<longrightarrow>
      keys_inv (snd (insert_precio s a f p c v)) \<and>
      keys_inv (upsert_subasta s a n) \<and>
      keys_inv (snd (get_or_create_familia s n)) \<and>
      keys_inv (snd (get_or_create_producto s p n u))"
    by (auto simp: keys_inv_def insert_precio_def upsert_subasta_def get_or_create_familia_def
          get_or_create_producto_def Let_def precio_key_of_def split: option.splits)
  have count: "keys_inv s \<and> distinct (map precio_key_of (precios s)) \<longrightarrow>
      card (precios_keys s) = length (precios s) \<and>
      distinct (map precio_key_of (precios (snd (insert_precio s a f p c v))))"
  proof (intro impI conjI)
    assume h: "keys_inv s \<and> distinct (map precio_key_of (precios s))"
    then show "card (precios_keys s) = length (precios s)"
      using distinct_card[of "map precio_key_of (precios s)"] by (simp add: keys_inv_def)
    from h show "distinct (map precio_key_of (precios (snd (insert_precio s a f p c v))))"
      by (auto simp: keys_inv_def insert_precio_def Let_def precio_key_of_def)
  qed
  have grow: "fst (insert_precio s a f p c v) \<longrightarrow>
      length (precios (snd (insert_precio s a f p c v))) = Suc (length (precios s)) \<and>
      (a, f, p, c) \<notin> precios_keys s \<and>
      precios_keys (snd (insert_precio s a f p c v)) = insert (a, f, p, c) (precios_keys s) \<and>
      (finite (precios_keys s) \<longrightarrow>
         card (precios_keys (snd (insert_precio s a f p c v))) = Suc (card (precios_keys s)))"
    by (simp add: insert_precio_def Let_def)
  have same: "\<not> fst (insert_precio s a f p c v) \<longrightarrow>
      precios (snd (insert_precio s a f p c v)) = precios s \<and>
      precios_keys (snd (insert_precio s a f p c v)) = precios_keys s"
    by (simp add: insert_precio_def Let_def)
  from init keep count grow same show ?thesis by blast
qed

theorem precios_keys_invariant_witness:
  "keys_inv one_price_store \<and> distinct (map precio_key_of (precios one_price_store)) \<and>
   card (precios_keys one_price_store) = 1 \<and>
   fst (insert_precio one_price_store 3 ''2024-03-05'' 1 2 1700) \<and>
   card (precios_keys (snd (insert_precio one_price_store 3 ''2024-03-05'' 1 2 1700))) = 2 \<and>
   \<not> fst (insert_precio one_price_store 3 ''2024-03-05'' 1 1 1700) \<and>
   precios (snd (insert_precio one_price_store 3 ''2024-03-05'' 1 1 1700)) = precios one_price_store"
  using precios_keys_invariant[of "[]" "[]" "[]" "precios one_price_store" one_price_store
          3 "''2024-03-05''" 1 2 1700 "''x''" None]
        precios_keys_invariant[of "[]" "[]" "[]" "precios one_price_store" one_price_store
          3 "''2024-03-05''" 1 1 1700 "''x''" None]
  by (simp add: one_price_store_def JsonStore_init_def precio_key_of_def insert_precio_def
        keys_inv_def)

subsection \<open>Surrogate identifiers\<close>

lemma foldl_max_Max: "foldl max x xs = Max (set (x # xs))"
proof (induction xs arbitrary: x)
  case Nil
  then show ?case by simp
next
  case (Cons y ys)
  have "foldl max x (y # ys) = Max (set (max x y # ys))"
    using Cons.IH[of "max x y"] by simp
  also have "\<dots> = Max (set (x # y # ys))"
    by (cases ys) (simp_all add: max.assoc)
  finally show ?case .
qed

lemma py_max_default_Max: "ids \<noteq> [] \<Longrightarrow> py_max_default ids d = Max (set ids)"
  by (cases ids) (simp_all add: foldl_max_Max del: Max_insert set_simps)

lemma next_id_Max: "next_id ids = (if ids = [] then 1 else Max (set ids) + 1)"
  by (simp add: next_id_def py_max_default_Max)

lemma next_id_gt: "x \<in> set ids \<Longrightarrow> x < next_id ids"
proof -
  assume a: "x \<in> set ids"
  then have "ids \<noteq> []" by auto
  moreover have "x \<le> Max (set ids)" using a by simp
  ultimately show ?thesis by (simp add: next_id_Max)
qed

lemma Max_snoc_next_id: "ids \<noteq> [] \<Longrightarrow> Max (set (ids @ [next_id ids])) = Max (set ids) + 1"
proof -
  assume ne: "ids \<noteq> []"
  have "Max (set (ids @ [next_id ids])) = Max (insert (next_id ids) (set ids))" by simp
  also have "\<dots> = max (next_id ids) (Max (set ids))"
    using ne by (intro Max_insert) auto
  also have "\<dots> = Max (set ids) + 1"
    using ne by (simp add: next_id_Max)
  finally show ?thesis .
qed

text \<open>
  Claim C5. The identifier given to a new family or product is the greatest identifier of
  the collection plus one, or 1 when the collection is empty. Hence the first family
  created into an empty collection gets 1, the new identifier is greater than every
  identifier of the collection (it is not one of them, and distinct identifiers stay
  distinct), and after the creation the greatest identifier of a non-empty collection is
  one more than before.
\<close>

theorem surrogate_id_assignment:
  "next_id ids = (if ids = [] then 1 else Max (set ids) + 1) \<and>
   (\<forall>x \<in> set ids. x < next_id ids) \<and>
   (familias_by_name s (py_lower (py_strip fname)) = None \<longrightarrow>
      (\<exists>fid s'. get_or_create_familia s fname = (fid, s') \<and>
         fid = next_id (map fam_id (familias s)) \<and>
         map fam_id (familias s') = map fam_id (familias s) @ [fid] \<and>
         (familias s = [] \<longrightarrow> fid = 1) \<and>
         (familias s \<noteq> [] \<longrightarrow>
            Max (set (map fam_id (familias s'))) = Max (set (map fam_id (familias s))) + 1) \<and>
         fid \<notin> set (map fam_id (familias s)) \<and>
         (distinct (map fam_id (familias s)) \<longrightarrow> distinct (map fam_id (familias s'))))) \<and>
   (productos_by_key s (family_id, py_lower (py_strip pname)) = None \<longrightarrow>
      (\<exists>pid s'. get_or_create_producto s family_id pname url = (pid, s') \<and>
         pid = next_id (map prod_id (productos s)) \<and>
         map prod_id (productos s') = map prod_id (productos s) @ [pid] \<and>
         (productos s = [] \<longrightarrow> pid = 1) \<and>
         (productos s \<noteq> [] \<longrightarrow>
            Max (set (map prod_id (productos s'))) = Max (set (map prod_id (productos s))) + 1) \<and>
         pid \<notin> set (map prod_id (productos s)) \<and>
         (distinct (map prod_id (productos s)) \<longrightarrow> distinct (map prod_id (productos s')))))"
proof -
  have fresh: "next_id xs \<notin> set xs" for xs
    using next_id_gt[of "next_id xs" xs] by auto
  have mx: "xs \<noteq> [] \<Longrightarrow> Max (insert (next_id xs) (set xs)) = Max (set xs) + 1" for xs
    using Max_snoc_next_id[of xs] by simp
  have a: "next_id ids = (if ids = [] then 1 else Max (set ids) + 1)"
    by (rule next_id_Max)
  have b: "\<forall>x \<in> set ids. x < next_id ids"
    by (simp add: next_id_gt)
  have c: "familias_by_name s (py_lower (py_strip fname)) = None \<longrightarrow>
      (\<exists>fid s'. get_or_create_familia s fname = (fid, s') \<and>
         fid = next_id (map fam_id (familias s)) \<and>
         map fam_id (familias s') = map fam_id (familias s) @ [fid] \<and>
         (familias s = [] \<longrightarrow> fid = 1) \<and>
         (familias s \<noteq> [] \<longrightarrow>
            Max (set (map fam_id (familias s'))) = Max (set (map fam_id (familias s))) + 1) \<and>
         fid \<notin> set (map fam_id (familias s)) \<and>
         (distinct (map fam_id (familias s)) \<longrightarrow> distinct (map fam_id (familias s'))))"
    using fresh[of "map fam_id (familias s)"] mx[of "map fam_id (familias s)"]
    by (simp add: get_or_create_familia_def Let_def next_id_Max)
  have d: "productos_by_key s (family_id, py_lower (py_strip pname)) = None \<longrightarrow>
      (\<exists>pid s'. get_or_create_producto s family_id pname url = (pid, s') \<and>
         pid = next_id (map prod_id (productos s)) \<and>
         map prod_id (productos s') = map prod_id (productos s) @ [pid] \<and>
         (productos s = [] \<longrightarrow> pid = 1) \<and>
         (productos s \<noteq> [] \<longrightarrow>
            Max (set (map prod_id (productos s'))) = Max (set (map prod_id (productos s))) + 1) \<and>
         pid \<notin> set (map prod_id (productos s)) \<and>
         (distinct (map prod_id (productos s)) \<longrightarrow> distinct (map prod_id (productos s'))))"
    using fresh[of "map prod_id (productos s)"] mx[of "map prod_id (productos s)"]
    by (simp add: get_or_create_producto_def Let_def next_id_Max)
  from a b c d show ?thesis by blast
qed

theorem surrogate_id_assignment_witness:
  "next_id [3, 7, 5] = 8 \<and>
   familias_by_name empty_store (py_lower (py_strip ''Vacuno'')) = None \<and>
   fst (get_or_create_familia empty_store ''Vacuno'') = 1 \<and>
   productos_by_key novillo_store (1, py_lower (py_strip ''Ternera'')) = None \<and>
   fst (get_or_create_producto novillo_store 1 ''Ternera'' None) = 2"
  using surrogate_id_assignment[of "[3, 7, 5]" empty_store "''Vacuno''" 1 "''Ternera''" None]
        surrogate_id_assignment[of "[3, 7, 5]" novillo_store "''Vacuno''" 1 "''Ternera''" None]
  by (auto simp: empty_store_def novillo_store_def JsonStore_init_def py_lower_def py_strip_def
        py_isspace_def py_lower_char_def next_id_def)

subsection \<open>Get-or-create of families and products\<close>

text \<open>
  Claim C2. When two family names are equal after trimming surrounding whitespace and
  lower-casing, \<open>get_or_create_familia\<close> on the first and then on the second returns the
  same identifier both times; the second call leaves the store as the first call left
  it, so at most one family is created. In particular "Vacuno" and " vacuno " get the
  same identifier, in every store.
\<close>

theorem familia_name_folding:
  "(py_lower (py_strip n1) = py_lower (py_strip n2) \<longrightarrow>
     (\<exists>i s1. get_or_create_familia s n1 = (i, s1) \<and> get_or_create_familia s1 n2 = (i, s1) \<and>
        length (familias s1) \<le> Suc (length (familias s)))) \<and>
   fst (get_or_create_familia (snd (get_or_create_familia s ''Vacuno'')) '' vacuno '') =
     fst (get_or_create_familia s ''Vacuno'')"
proof -
  have gen: "py_lower (py_strip a) = py_lower (py_strip b) \<Longrightarrow>
     \<exists>i s1. get_or_create_familia s a = (i, s1) \<and> get_or_create_familia s1 b = (i, s1) \<and>
        length (familias s1) \<le> Suc (length (familias s))" for a b
    by (cases "familias_by_name s (py_lower (py_strip b))")
       (simp_all add: get_or_create_familia_def Let_def)
  have key: "py_lower (py_strip ''Vacuno'') = py_lower (py_strip '' vacuno '')"
    by (simp add: py_lower_def py_strip_def py_isspace_def py_lower_char_def)
  from gen[OF key] have "fst (get_or_create_familia (snd (get_or_create_familia s ''Vacuno'')) '' vacuno '') =
     fst (get_or_create_familia s ''Vacuno'')" by auto
  with gen[of n1 n2] show ?thesis by blast
qed

theorem familia_name_folding_witness:
  "py_lower (py_strip ''Vacuno'') = py_lower (py_strip '' vacuno '') \<and>
   fst (get_or_create_familia empty_store ''Vacuno'') = 1 \<and>
   fst (get_or_create_familia (snd (get_or_create_familia empty_store ''Vacuno'')) '' vacuno '') = 1 \<and>
   length (familias (snd (get_or_create_familia (snd (get_or_create_familia empty_store ''Vacuno''))
      '' vacuno ''))) = 1"
  using familia_name_folding[of "''Vacuno''" "'' vacuno ''" empty_store]
  by (simp add: empty_store_def JsonStore_init_def py_lower_def py_strip_def py_isspace_def
        py_lower_char_def get_or_create_familia_def Let_def next_id_def)

text \<open>
  Claim C6. When the key (family id, normalised name) refers to a product of the store,
  \<open>get_or_create_producto\<close> returns the identifier of that product and creates no
  product: the list keeps its length and the dictionary is unchanged. The stored URL of
  that product becomes the incoming URL exactly when the stored URL is empty (absent or
  the empty string) and the incoming URL is not; otherwise it stays. Names, identifiers,
  family identifiers and all other products stay as they were.
\<close>

theorem producto_hit_backfill:
  "refs_ok s \<Longrightarrow>
   productos_by_key s (family_id, py_lower (py_strip pname)) = Some i \<Longrightarrow>
   \<exists>s'. get_or_create_producto s family_id pname url = (prod_id (productos s ! i), s') \<and>
      length (productos s') = length (productos s) \<and>
      productos_by_key s' = productos_by_key s \<and>
      map prod_id (productos s') = map prod_id (productos s) \<and>
      map prod_familia_id (productos s') = map prod_familia_id (productos s) \<and>
      map prod_nombre (productos s') = map prod_nombre (productos s) \<and>
      prod_url (productos s' ! i) =
        (if truthy_url url \<and> \<not> truthy_url (prod_url (productos s ! i))
         then url else prod_url (productos s ! i)) \<and>
      (\<forall>j. j \<noteq> i \<longrightarrow> productos s' ! j = productos s ! j) \<and>
      subastas s' = subastas s \<and> familias s' = familias s \<and> precios s' = precios s \<and>
      subastas_by_id s' = subastas_by_id s \<and> familias_by_name s' = familias_by_name s \<and>
      precios_keys s' = precios_keys s"
proof -
  assume ok: "refs_ok s"
    and hit: "productos_by_key s (family_id, py_lower (py_strip pname)) = Some i"
  from ok hit have "i < length (productos s)"
    unfolding refs_ok_def by blast
  with hit show ?thesis
    by (simp add: get_or_create_producto_def Let_def map_update list_update_same_conv)
qed

theorem producto_hit_backfill_witness:
  "refs_ok novillo_store \<and>
   productos_by_key novillo_store (1, py_lower (py_strip '' NOVILLO '')) = Some 0 \<and>
   fst (get_or_create_producto novillo_store 1 '' NOVILLO '' (Some ''/novillo'')) = 1 \<and>
   map prod_url (productos (snd (get_or_create_producto novillo_store 1 '' NOVILLO ''
      (Some ''/novillo'')))) = [Some ''/novillo''] \<and>
   map prod_nombre (productos (snd (get_or_create_producto novillo_store 1 '' NOVILLO ''
      (Some ''/novillo'')))) = [''Novillo'']"
proof -
  have ok: "refs_ok novillo_store"
    unfolding novillo_store_def by (rule refs_ok_init)
  have hit: "productos_by_key novillo_store (1, py_lower (py_strip '' NOVILLO '')) = Some 0"
    by (simp add: novillo_store_def JsonStore_init_def py_lower_def py_strip_def py_isspace_def
          py_lower_char_def)
  from producto_hit_backfill[OF ok hit, of "Some ''/novillo''"]
  obtain s' where r: "get_or_create_producto novillo_store 1 '' NOVILLO '' (Some ''/novillo'') =
        (prod_id (productos novillo_store ! 0), s')"
      and n: "map prod_nombre (productos s') = map prod_nombre (productos novillo_store)"
      and l: "length (productos s') = length (productos novillo_store)"
      and u: "prod_url (productos s' ! 0) =
        (if truthy_url (Some ''/novillo'') \<and> \<not> truthy_url (prod_url (productos novillo_store ! 0))
         then Some ''/novillo'' else prod_url (productos novillo_store ! 0))"
    by blast
  have p: "productos novillo_store =
      [\<lparr> prod_id = 1, prod_familia_id = 1, prod_nombre = ''Novillo'', prod_url = None \<rparr>]"
    by (simp add: novillo_store_def JsonStore_init_def)
  from l p obtain x where x: "productos s' = [x]"
    by (cases "productos s'") auto
  with u p have "map prod_url (productos s') = [Some ''/novillo'']"
    by (simp add: truthy_url_def)
  with ok hit r n p show ?thesis by simp
qed

section \<open>Properties of the response classifier\<close>

lemma py_in_sublist: "py_in sub s = sublist sub s"
  by (induction s) (simp_all add: sublist_Cons_right)

lemma py_in_append: "py_in sub s = (\<exists>pre post. s = pre @ sub @ post)"
  by (simp add: py_in_sublist sublist_def)

lemma py_in_map:
  "py_in t (map f s) = (\<exists>pre mid post. s = pre @ mid @ post \<and> map f mid = t)"
proof
  assume "py_in t (map f s)"
  then obtain p q where "map f s = p @ t @ q" by (auto simp: py_in_append)
  then obtain us vs where s: "s = us @ vs" and "t @ q = map f vs"
    by (auto simp: map_eq_append_conv)
  then obtain ms ws where "vs = ms @ ws" and "map f ms = t"
    by (auto simp: append_eq_map_conv)
  with s show "\<exists>pre mid post. s = pre @ mid @ post \<and> map f mid = t"
    by blast
next
  assume "\<exists>pre mid post. s = pre @ mid @ post \<and> map f mid = t"
  then obtain pre mid post where "s = pre @ mid @ post" "map f mid = t" by blast
  then have "map f s = map f pre @ t @ map f post" by simp
  then show "py_in t (map f s)" unfolding py_in_append by blast
qed

text \<open>
  Claim C4. \<open>has_error_response\<close> is true exactly when some stretch of the text reads
  "ERROR" once its letters are upper-cased (the text contains the token without regard to
  case) and the text does not contain the literal marker \<open>tab_pre_pro\<close> of the products
  table. Consequently a text that contains the marker is never classified as an error
  response, whether or not it contains "ERROR".
\<close>

theorem has_error_response_policy:
  "(has_error_response html \<longleftrightarrow>
      (\<exists>pre mid post. html = pre @ mid @ post \<and> py_upper mid = ''ERROR'') \<and>
      \<not> (\<exists>pre post. html = pre @ ''tab_pre_pro'' @ post)) \<and>
   ((\<exists>pre post. html = pre @ ''tab_pre_pro'' @ post) \<longrightarrow> \<not> has_error_response html)"
  unfolding has_error_response_def py_upper_def py_in_map
  by (simp add: py_in_append)

theorem has_error_response_policy_witness:
  "has_error_response ''<p>Error 404</p>'' \<and>
   (\<exists>pre mid post. ''<p>Error 404</p>'' = pre @ mid @ post \<and> py_upper mid = ''ERROR'') \<and>
   (\<exists>pre post. ''ERROR <table class=tab_pre_pro>'' = pre @ ''tab_pre_pro'' @ post) \<and>
   \<not> has_error_response ''ERROR <table class=tab_pre_pro>''"
proof -
  have a: "has_error_response ''<p>Error 404</p>''"
    by code_simp
  have "py_in ''tab_pre_pro'' ''ERROR <table class=tab_pre_pro>''"
    by code_simp
  then have b: "\<exists>pre post. ''ERROR <table class=tab_pre_pro>'' = pre @ ''tab_pre_pro'' @ post"
    by (simp only: py_in_append)
  from a has_error_response_policy[of "''<p>Error 404</p>''"]
  have c: "\<exists>pre mid post. ''<p>Error 404</p>'' = pre @ mid @ post \<and> py_upper mid = ''ERROR''"
    by blast
  from b has_error_response_policy[of "''ERROR <table class=tab_pre_pro>''"]
  have d: "\<not> has_error_response ''ERROR <table class=tab_pre_pro>''"
    by blast
  from a b c d show ?thesis by blast
qed

section \<open>Properties of the row extractor\<close>

subsection \<open>Price cells\<close>

lemma parse_cuts_loop_map:
  "parse_cuts_loop cells vals = vals @ map (\<lambda>cell. spec_cut (get_text [] cell)) cells"
  by (induction cells arbitrary: vals) (auto simp: spec_cut_def Let_def)

lemma py_int_snoc: "py_int (ds @ [d]) = 10 * py_int ds + digit_val d"
  by (simp add: py_int_def)

lemma py_int_decimal:
  "py_int ds = (\<Sum>i<length ds. digit_val (ds ! i) * 10 ^ (length ds - Suc i))"
proof (induction ds rule: rev_induct)
  case Nil
  then show ?case by (simp add: py_int_def)
next
  case (snoc d ds)
  have "(\<Sum>i<length ds. digit_val ((ds @ [d]) ! i) * 10 ^ (length (ds @ [d]) - Suc i)) =
        (\<Sum>i<length ds. 10 * (digit_val (ds ! i) * 10 ^ (length ds - Suc i)))"
  proof (rule sum.cong)
    fix i assume "i \<in> {..<length ds}"
    then have i: "i < length ds" by simp
    then have "length (ds @ [d]) - Suc i = Suc (length ds - Suc i)" by simp
    with i show "digit_val ((ds @ [d]) ! i) * 10 ^ (length (ds @ [d]) - Suc i) =
        10 * (digit_val (ds ! i) * 10 ^ (length ds - Suc i))"
      by (simp add: nth_append)
  qed simp
  then have "(\<Sum>i<length (ds @ [d]). digit_val ((ds @ [d]) ! i) * 10 ^ (length (ds @ [d]) - Suc i)) =
        10 * (\<Sum>i<length ds. digit_val (ds ! i) * 10 ^ (length ds - Suc i)) + digit_val d"
    by (simp add: sum_distrib_left)
  with snoc.IH show ?case by (simp add: py_int_snoc)
qed

lemma strings_all_blank:
  "\<forall>t \<in> set (strings ns). \<forall>c \<in> set t. py_isspace c \<Longrightarrow>
   filter (\<lambda>t. t \<noteq> []) (map py_strip (strings ns)) = []"
proof -
  have "py_strip t = []" if "\<forall>c \<in> set t. py_isspace c" for t
    using that by (auto simp: py_strip_def dest: set_dropWhileD)
  then show "\<forall>t \<in> set (strings ns). \<forall>c \<in> set t. py_isspace c \<Longrightarrow>
   filter (\<lambda>t. t \<noteq> []) (map py_strip (strings ns)) = []"
    by (simp add: filter_empty_conv)
qed

text \<open>
  Claim C3. \<open>parse_cuts\<close> maps the price cells of a row (its \<open>td.txt\<close> cells, in
  document order) one by one, left to right: a cell whose stripped text is a lone dash or
  empty, or has no digit, gives a null entry; any other cell gives the integer read from
  its digits, which is their decimal value. A cell with only whitespace gives a null
  entry. The row with the cells "1200", "-", "" and "980" gives 1200, null, null, 980.
\<close>

theorem parse_cuts_cells:
  "parse_cuts row = map (\<lambda>cell. spec_cut (get_text [] cell)) (select (tag_class ''td'' ''txt'') row) \<and>
   ((\<forall>t \<in> set (strings (descendants cell)). \<forall>c \<in> set t. py_isspace c) \<longrightarrow>
      spec_cut (get_text [] cell) = None) \<and>
   py_int (filter is_digit text) =
     (\<Sum>i<length (filter is_digit text).
        digit_val (filter is_digit text ! i) * 10 ^ (length (filter is_digit text) - Suc i)) \<and>
   parse_cuts example_cut_row = [Some 1200, None, None, Some 980]"
proof -
  have a: "parse_cuts row =
      map (\<lambda>cell. spec_cut (get_text [] cell)) (select (tag_class ''td'' ''txt'') row)"
    by (simp add: parse_cuts_def parse_cuts_loop_map)
  have b: "(\<forall>t \<in> set (strings (descendants cell)). \<forall>c \<in> set t. py_isspace c) \<longrightarrow>
      spec_cut (get_text [] cell) = None"
    by (simp add: get_text_def strings_all_blank spec_cut_def)
  have c: "parse_cuts example_cut_row = [Some 1200, None, None, Some 980]"
    by code_simp
  from a b c py_int_decimal[of "filter is_digit text"] show ?thesis by blast
qed

theorem parse_cuts_cells_witness:
  "strings (descendants (price_cell ''  '')) = [''  ''] \<and> py_isspace CHR '' '' \<and>
   spec_cut (get_text [] (price_cell ''  '')) = None \<and>
   map (\<lambda>cell. spec_cut (get_text [] cell)) (select (tag_class ''td'' ''txt'') example_cut_row) =
     [Some 1200, None, None, Some 980]"
proof -
  have h: "\<forall>t \<in> set (strings (descendants (price_cell ''  ''))). \<forall>c \<in> set t. py_isspace c"
    by code_simp
  note t = parse_cuts_cells[of example_cut_row "price_cell ''  ''" "''1.200''"]
  from t have a: "parse_cuts example_cut_row =
      map (\<lambda>cell. spec_cut (get_text [] cell)) (select (tag_class ''td'' ''txt'') example_cut_row)"
    by blast
  from t have b: "parse_cuts example_cut_row = [Some 1200, None, None, Some 980]"
    by blast
  from t h have c: "spec_cut (get_text [] (price_cell ''  '')) = None"
    by blast
  from a b have "map (\<lambda>cell. spec_cut (get_text [] cell))
      (select (tag_class ''td'' ''txt'') example_cut_row) = [Some 1200, None, None, Some 980]"
    by (rule trans[OF sym])
  moreover have "strings (descendants (price_cell ''  '')) = [''  '']" and "py_isspace CHR '' ''"
    by code_simp+
  ultimately show ?thesis using c by blast
qed

subsection \<open>Family headers\<close>

lemma parse_rows_loop_append:
  "parse_rows_loop (xs @ ys) st = parse_rows_loop ys (parse_rows_loop xs st)"
  by (induction xs arbitrary: st) simp_all

text \<open>
  Claim C9. In the loop of \<open>parse_rows\<close>, a row tagged \<open>familias_subasta\<close> that has no
  family cell leaves the current family and the rows parsed so far as they are: the loop
  over a list of rows gives the same result with or without such a row at any place. A
  product row right after it is therefore attributed to the family that was current
  before the header, and is skipped when no family has been set.
\<close>

theorem header_without_family_cell:
  "''familias_subasta'' \<in> set (classes hdr) \<Longrightarrow>
   select_one (td_class_prefix ''fam'') hdr = None \<Longrightarrow>
   parse_row_step hdr (current_family, rows) = (current_family, rows) \<and>
   parse_rows_loop (before @ hdr # after) st = parse_rows_loop (before @ after) st \<and>
   (''familias_subasta'' \<notin> set (classes r) \<longrightarrow>
    select_one (tag_class ''td'' ''pro'') r = Some product_cell \<longrightarrow>
      parse_rows_loop [hdr, r] (current_family, rows) =
        (current_family,
         if current_family = [] then rows
         else rows @ [\<lparr> family_name = current_family,
                         product_name = get_text '' '' product_cell,
                         product_url = parse_product_url r,
                         cuts = parse_cuts r \<rparr>]))"
proof -
  assume h: "''familias_subasta'' \<in> set (classes hdr)"
    and n: "select_one (td_class_prefix ''fam'') hdr = None"
  have step: "parse_row_step hdr x = x" for x
    using h n by (simp add: parse_row_step_def Let_def)
  have a: "parse_rows_loop (before @ hdr # after) st = parse_rows_loop (before @ after) st"
    by (simp add: parse_rows_loop_append step)
  have b: "''familias_subasta'' \<notin> set (classes r) \<longrightarrow>
    select_one (tag_class ''td'' ''pro'') r = Some product_cell \<longrightarrow>
      parse_rows_loop [hdr, r] (current_family, rows) =
        (current_family,
         if current_family = [] then rows
         else rows @ [\<lparr> family_name = current_family,
                         product_name = get_text '' '' product_cell,
                         product_url = parse_product_url r,
                         cuts = parse_cuts r \<rparr>])"
  proof (intro impI)
    assume "''familias_subasta'' \<notin> set (classes r)"
      and "select_one (tag_class ''td'' ''pro'') r = Some product_cell"
    moreover have "parse_rows_loop [hdr, r] (current_family, rows) =
        parse_row_step r (current_family, rows)"
      by (simp add: step)
    ultimately show "parse_rows_loop [hdr, r] (current_family, rows) =
        (current_family,
         if current_family = [] then rows
         else rows @ [\<lparr> family_name = current_family,
                         product_name = get_text '' '' product_cell,
                         product_url = parse_product_url r,
                         cuts = parse_cuts r \<rparr>])"
      by (simp add: parse_row_step_def Let_def)
  qed
  from step a b show ?thesis by blast
qed

theorem header_without_family_cell_witness:
  "''familias_subasta'' \<in> set (classes header_no_fam_cell) \<and>
   select_one (td_class_prefix ''fam'') header_no_fam_cell = None \<and>
   parse_rows_loop [header_no_fam_cell, ternera_row] (''Vacuno'', []) =
     (''Vacuno'', [\<lparr> family_name = ''Vacuno'', product_name = get_text '' '' ternera_cell,
                      product_url = parse_product_url ternera_row,
                      cuts = parse_cuts ternera_row \<rparr>]) \<and>
   parse_rows_loop [header_no_fam_cell, ternera_row] ([], []) = ([], [])"
proof -
  have h1: "''familias_subasta'' \<in> set (classes header_no_fam_cell)"
    by code_simp
  have h2: "select_one (td_class_prefix ''fam'') header_no_fam_cell = None"
    by code_simp
  have h3: "''familias_subasta'' \<notin> set (classes ternera_row)"
    by code_simp
  have h4: "select_one (tag_class ''td'' ''pro'') ternera_row = Some ternera_cell"
    by code_simp
  from h3 h4
    header_without_family_cell[OF h1 h2, of "''Vacuno''" "[]" "[]" "[]" "([], [])" ternera_row ternera_cell]
  have "parse_rows_loop [header_no_fam_cell, ternera_row] (''Vacuno'', []) =
     (''Vacuno'',
      if ''Vacuno'' = [] then []
      else [] @ [\<lparr> family_name = ''Vacuno'', product_name = get_text '' '' ternera_cell,
                      product_url = parse_product_url ternera_row,
                      cuts = parse_cuts ternera_row \<rparr>])"
    by blast
  then have a: "parse_rows_loop [header_no_fam_cell, ternera_row] (''Vacuno'', []) =
     (''Vacuno'', [\<lparr> family_name = ''Vacuno'', product_name = get_text '' '' ternera_cell,
                      product_url = parse_product_url ternera_row,
                      cuts = parse_cuts ternera_row \<rparr>])"
    by simp
  from h3 h4
    header_without_family_cell[OF h1 h2, of "[]" "[]" "[]" "[]" "([], [])" ternera_row ternera_cell]
  have "parse_rows_loop [header_no_fam_cell, ternera_row] ([], []) =
     ([],
      if ([]::string) = [] then []
      else [] @ [\<lparr> family_name = [], product_name = get_text '' '' ternera_cell,
                      product_url = parse_product_url ternera_row,
                      cuts = parse_cuts ternera_row \<rparr>])"
    by blast
  then have b: "parse_rows_loop [header_no_fam_cell, ternera_row] ([], []) = ([], [])"
    by simp
  note a b
  with h1 h2 show ?thesis by blast
qed

section \<open>Properties of the metadata extractor and of the crawl driver\<close>

subsection \<open>The displayed date\<close>

text \<open>
  When the title cell is absent, or its text has no \<open>dd-mm-yyyy\<close> pattern, the function
  returns the fallback date. When the pattern occurs, the three groups of the leftmost
  match go to the date constructor, which returns the date only if they denote a day of
  the calendar.
\<close>

lemma extract_table_date_fallback:
  "select_one_under (tag_class ''table'' ''tab_pre_sub'') (tag_class ''td'' ''titNombreder'') soup = None \<or>
   (\<exists>c. select_one_under (tag_class ''table'' ''tab_pre_sub'') (tag_class ''td'' ''titNombreder'') soup = Some c \<and>
        search_date (get_text '' '' c) = None) \<Longrightarrow>
   extract_table_date soup fallback = Inr fallback"
  by (auto simp: extract_table_date_def)

lemma extract_table_date_match:
  "select_one_under (tag_class ''table'' ''tab_pre_sub'') (tag_class ''td'' ''titNombreder'') soup = Some c \<Longrightarrow>
   search_date (get_text '' '' c) = Some (dd, mm, yyyy) \<Longrightarrow>
   extract_table_date soup fallback =
     (if 1 \<le> py_int yyyy \<and> py_int yyyy \<le> 9999 \<and> 1 \<le> py_int mm \<and> py_int mm \<le> 12 \<and>
         1 \<le> py_int dd \<and> py_int dd \<le> days_in_month (py_int yyyy) (py_int mm)
      then Inr \<lparr> year = py_int yyyy, month = py_int mm, day = py_int dd \<rparr>
      else Inl ValueError)"
  by (simp add: extract_table_date_def py_date_def)

text \<open>
  Claim C7. The claim is that \<open>extract_table_date\<close> returns a date for every document
  and never raises. The title cell with the text "Fecha: 31-02-2024" has the pattern, but
  the 31st of February is no date: the date constructor raises \<open>ValueError\<close>, and so does
  \<open>extract_table_date\<close>, whatever the fallback date is.
\<close>

theorem extract_table_date_raises:
  "select_one_under (tag_class ''table'' ''tab_pre_sub'') (tag_class ''td'' ''titNombreder'')
     (title_doc ''Fecha: 31-02-2024'' []) \<noteq> None \<and>
   extract_table_date (title_doc ''Fecha: 31-02-2024'' []) fallback = Inl ValueError"
proof -
  have a: "select_one_under (tag_class ''table'' ''tab_pre_sub'') (tag_class ''td'' ''titNombreder'')
     (title_doc ''Fecha: 31-02-2024'' []) = Some (Elem ''td'' [''titNombreder''] None [Text ''Fecha: 31-02-2024''])"
    by code_simp
  have b: "search_date (get_text '' '' (Elem ''td'' [''titNombreder''] None [Text ''Fecha: 31-02-2024''])) =
      Some (''31'', ''02'', ''2024'')"
    by code_simp
  have c: "py_date (py_int ''2024'') (py_int ''02'') (py_int ''31'') = Inl ValueError"
    by code_simp
  from a b c show ?thesis by (simp add: extract_table_date_def)
qed

subsection \<open>Pairs that record nothing\<close>

text \<open>
  A pass of the inner loop whose request fails, or whose page is classified as an error
  page, only counts the query: the store and the count of inserted prices stay as they
  are and the loop goes on. A pass whose document has no parsed rows does the same,
  provided the date extraction, which runs before the rows are looked at, has returned.
\<close>

lemma process_pair_request_failed:
  "fetch_auction_html w subasta_id current_day = None \<Longrightarrow>
   process_pair w subasta_id current_day st = Inr (st\<lparr> queried := queried st + 1 \<rparr>)"
  by (simp add: process_pair_def)

lemma process_pair_error_page:
  "fetch_auction_html w subasta_id current_day = Some html \<Longrightarrow> has_error_response html \<Longrightarrow>
   process_pair w subasta_id current_day st = Inr (st\<lparr> queried := queried st + 1 \<rparr>)"
  by (simp add: process_pair_def)

lemma process_pair_no_rows:
  "fetch_auction_html w subasta_id current_day = Some html \<Longrightarrow> \<not> has_error_response html \<Longrightarrow>
   parse_rows (parse_html w html) = [] \<Longrightarrow>
   process_pair w subasta_id current_day st =
     (case extract_table_date (parse_html w html) current_day of
        Inl e \<Rightarrow> Inl e
      | Inr displayed_date \<Rightarrow> Inr (st\<lparr> queried := queried st + 1 \<rparr>))"
  by (simp add: process_pair_def Let_def split: sum.splits)

lemma auctions_loop_skips:
  "process_pair w subasta_id current_day st = Inr (st\<lparr> queried := queried st + 1 \<rparr>) \<Longrightarrow>
   auctions_loop w current_day (subasta_id # ids) st =
     auctions_loop w current_day ids (st\<lparr> queried := queried st + 1 \<rparr>)"
  by simp

text \<open>
  Claim C8. The claim is that every pair whose document yields zero parsed rows leaves
  the store unchanged and that the loop continues with the next pair. A page that is not
  an error page, has no products table and shows the date "00-00-0000" in its title cell
  yields zero parsed rows, but the pass ends with \<open>ValueError\<close> from the date extraction,
  and the whole run ends with it: the remaining pairs are not queried and the store is
  never saved.
\<close>

theorem run_scrapper_aborts:
  "\<not> has_error_response ''<html>'' \<and>
   parse_rows (title_doc ''00-00-0000'' []) = [] \<and>
   process_pair (fixed_world (title_doc ''00-00-0000'' [])) 1 d2099 st = Inl ValueError \<and>
   run_scrapper (fixed_world (title_doc ''00-00-0000'' [])) d2099 1 3 s = Inl ValueError"
proof -
  have a: "\<not> has_error_response ''<html>''"
    by code_simp
  have b: "parse_rows (title_doc ''00-00-0000'' []) = []"
    by code_simp
  have c: "extract_table_date (title_doc ''00-00-0000'' []) d2099 = Inl ValueError"
    by code_simp
  have d: "process_pair (fixed_world (title_doc ''00-00-0000'' [])) 1 d2099 st' = Inl ValueError" for st'
    using a c by (simp add: process_pair_def fixed_world_def Let_def)
  have e: "[1..3] = 1 # [2..(3::int)]"
    by (simp add: upto_rec1)
  have f: "[0..(1::int) - 1] = [0]"
    by (simp add: upto_rec1)
  have g: "auctions_loop (fixed_world (title_doc ''00-00-0000'' [])) d2099 [1..3] st' = Inl ValueError"
    for st'
    by (simp add: e d)
  have h: "minus_days (fixed_world (title_doc ''00-00-0000'' [])) d2099 0 = Inr d2099"
    by (simp add: fixed_world_def)
  have "run_scrapper (fixed_world (title_doc ''00-00-0000'' [])) d2099 1 3 s = Inl ValueError"
    unfolding run_scrapper_def f
    by (simp add: g h)
  with a b d show ?thesis by blast
qed

subsection \<open>A run on one page\<close>

text \<open>
  The scenario of a page with one family header ("Vacuno"), one product row ("Novillo",
  cuts "1500" and "-") and the displayed date 05-03-2024, requested for auction 3 and
  the day 01-01-2099, on an empty store: one auction, one family, one product, and one
  price, at cut 1, dated by the page and not by the request.
\<close>

lemma process_pair_scenario:
  "(case process_pair (fixed_world (title_doc ''05-03-2024'' [products_table])) 3 d2099
           \<lparr> the_store = empty_store, inserted_prices = 0, queried = 0 \<rparr> of
      Inl e \<Rightarrow> False
    | Inr st \<Rightarrow>
        subastas (the_store st) = [\<lparr> sub_id = 3, sub_nombre = ''Lonja'' \<rparr>] \<and>
        familias (the_store st) = [\<lparr> fam_id = 1, fam_nombre = ''Vacuno'' \<rparr>] \<and>
        productos (the_store st) =
          [\<lparr> prod_id = 1, prod_familia_id = 1, prod_nombre = ''Novillo'', prod_url = None \<rparr>] \<and>
        precios (the_store st) =
          [\<lparr> pr_subasta_id = 3, pr_fecha = ''2024-03-05'', pr_producto_id = 1, pr_corte = 1,
             pr_precio = 1500 \<rparr>] \<and>
        inserted_prices st = 1 \<and> queried st = 1)"
  by code_simp

end
